theory Spec2Isabelle
  imports Complex_Main "HOL-Library.Sublist" "HOL-Library.Monad_Syntax" "HOL-Library.Word"
begin

section \<open>Errors returned by the external collaborators\<close>

text \<open>
  The data platform and the authentication service answer a call with a result or with an
  error object. The views read two optional properties of that object, \<open>message\<close> and
  \<open>code\<close>; a property that is absent is \<open>None\<close>.
\<close>

record api_error =
  err_message :: "string option"
  err_code :: "string option"

text \<open>
  \<open>error.message || fallback\<close>: the fallback is taken when the message is absent or the
  empty string, the two falsy cases of an optional string.
\<close>

definition message_or :: "string option \<Rightarrow> string \<Rightarrow> string" where
  "message_or m fallback =
     (case m of None \<Rightarrow> fallback | Some s \<Rightarrow> if s = [] then fallback else s)"

text \<open>
  \<open>String.prototype.includes\<close>: the search string occurs at some position of the
  subject. \<open>starts_with\<close> compares at the current position, \<open>str_includes\<close> tries every
  position from left to right.
\<close>

fun starts_with :: "string \<Rightarrow> string \<Rightarrow> bool" where
  "starts_with s [] = True"
| "starts_with [] (c # t) = False"
| "starts_with (d # s) (c # t) = (d = c \<and> starts_with s t)"

fun str_includes :: "string \<Rightarrow> string \<Rightarrow> bool" where
  "str_includes [] t = (t = [])"
| "str_includes (d # s) t = (starts_with (d # s) t \<or> str_includes s t)"

text \<open>\<open>error.message?.includes(t)\<close>: undefined, hence falsy, when there is no message.\<close>

definition message_includes :: "api_error \<Rightarrow> string \<Rightarrow> bool" where
  "message_includes e t = (case err_message e of None \<Rightarrow> False | Some m \<Rightarrow> str_includes m t)"

section \<open>CategoryForm.handleSubmit\<close>

record category_data =
  cat_name :: string
  cat_description :: "string option"
  cat_slug :: string
  cat_image_url :: "string option"
  cat_updated_at :: string

record category_form =
  cf_loading :: bool
  cf_error :: string
  cf_saved :: bool

text \<open>The \<open>catch\<close> block of the category form: the text handed to \<open>setError\<close>.\<close>

definition category_error_text :: "api_error \<Rightarrow> string" where
  "category_error_text e =
     (if err_code e = Some ''23505''
      then ''A category with this slug already exists. Please choose a different name.''
      else message_or (err_message e) ''Failed to save category'')"

text \<open>
  The submission. \<open>editing\<close> is the id of the category being edited, \<open>None\<close> for a new
  one; \<open>db_update\<close> and \<open>db_insert\<close> are the two calls on the \<open>categories\<close> collection,
  each answering with an error or with none. \<open>cf_saved\<close> records that \<open>onSave\<close> ran.
\<close>

definition category_handleSubmit ::
  "(category_data \<Rightarrow> string \<Rightarrow> api_error option) \<Rightarrow> (category_data \<Rightarrow> api_error option) \<Rightarrow>
   string option \<Rightarrow> category_data \<Rightarrow> category_form \<Rightarrow> category_form" where
  "category_handleSubmit db_update db_insert editing categoryData st =
     (let st1 = st\<lparr>cf_loading := True, cf_error := ''''\<rparr>;
          response = (case editing of
                        Some cid \<Rightarrow> db_update categoryData cid
                      | None \<Rightarrow> db_insert categoryData)
      in case response of
           None \<Rightarrow> st1\<lparr>cf_saved := True, cf_loading := False\<rparr>
         | Some e \<Rightarrow> st1\<lparr>cf_error := category_error_text e, cf_loading := False\<rparr>)"

section \<open>LoginPage.handleSubmit\<close>

record login_page =
  lp_loading :: bool
  lp_error :: string
  lp_navigated :: "string option"

definition login_error_text :: "api_error \<Rightarrow> string" where
  "login_error_text e =
     (if message_includes e ''Invalid login credentials''
      then ''Invalid email or password. Please check your credentials and try again.''
      else if message_includes e ''Email not confirmed''
      then ''Please check your email and click the confirmation link before signing in.''
      else message_or (err_message e) ''Failed to sign in'')"

text \<open>
  \<open>signIn\<close> either returns or throws the collaborator's error; \<open>from_path\<close> is the path
  the view navigates to after a successful sign-in.
\<close>

definition login_handleSubmit ::
  "(string \<Rightarrow> string \<Rightarrow> api_error option) \<Rightarrow> string \<Rightarrow> string \<Rightarrow> string \<Rightarrow>
   login_page \<Rightarrow> login_page" where
  "login_handleSubmit signIn email password from_path st =
     (let st1 = st\<lparr>lp_loading := True, lp_error := ''''\<rparr>
      in case signIn email password of
           None \<Rightarrow> st1\<lparr>lp_navigated := Some from_path, lp_loading := False\<rparr>
         | Some e \<Rightarrow> st1\<lparr>lp_error := login_error_text e, lp_loading := False\<rparr>)"

section \<open>generateSlug (CategoryForm)\<close>

text \<open>
  \<open>name.toLowerCase().replace(/[^a-z0-9]+/g, '-').replace(/(^-|-$)/g, '')\<close>.
  A string of the source is a sequence of UTF-16 code units, and the two regular expressions
  (no \<open>u\<close> flag) work on code units. \<open>ascii_units\<close> gives the code units of an ASCII
  literal.
\<close>

type_synonym code_unit = "16 word"

type_synonym js_string = "code_unit list"

definition ascii_units :: "string \<Rightarrow> js_string" where
  "ascii_units s = map of_char s"

text \<open>The character class \<open>[a-z0-9]\<close>, the hyphen, and that class with the hyphen added.\<close>

definition alnum_alphabet :: js_string where
  "alnum_alphabet = ascii_units ''abcdefghijklmnopqrstuvwxyz0123456789''"

definition is_alnum :: "code_unit \<Rightarrow> bool" where
  "is_alnum u \<longleftrightarrow> u \<in> set alnum_alphabet"

definition hyphen :: code_unit where
  "hyphen = of_char CHR ''-''"

definition slug_alphabet :: js_string where
  "slug_alphabet = alnum_alphabet @ [hyphen]"

text \<open>
  \<open>.replace(/[^a-z0-9]+/g, '-')\<close>: one hyphen for every maximal run of code units outside
  \<open>[a-z0-9]\<close>.
\<close>

function replace_non_alnum_runs :: "js_string \<Rightarrow> js_string" where
  "replace_non_alnum_runs [] = []"
| "replace_non_alnum_runs (u # us) =
     (if is_alnum u then u # replace_non_alnum_runs us
      else hyphen # replace_non_alnum_runs (dropWhile (\<lambda>v. \<not> is_alnum v) us))"
  by pat_completeness auto
termination
  by (relation "measure length") (auto simp: less_Suc_eq_le length_dropWhile_le)

text \<open>
  \<open>.replace(/(^-|-$)/g, '')\<close>: a hyphen at the very start is deleted, and a hyphen at the
  very end of what is left.
\<close>

definition strip_edge_hyphens :: "js_string \<Rightarrow> js_string" where
  "strip_edge_hyphens s =
     (let s1 = (case s of [] \<Rightarrow> [] | u # us \<Rightarrow> if u = hyphen then us else s)
      in if s1 \<noteq> [] \<and> last s1 = hyphen then butlast s1 else s1)"

text \<open>
  \<open>String.prototype.toLowerCase\<close> belongs to the platform; its table, the Unicode case
  mapping, is not part of the sources. It is the parameter \<open>toLowerCase\<close>, any function
  from strings to strings.
\<close>

definition generateSlug :: "(js_string \<Rightarrow> js_string) \<Rightarrow> js_string \<Rightarrow> js_string" where
  "generateSlug toLowerCase name =
     strip_edge_hyphens (replace_non_alnum_runs (toLowerCase name))"

text \<open>No two neighbouring code units are both hyphens.\<close>

fun single_hyphens :: "js_string \<Rightarrow> bool" where
  "single_hyphens (u # v # us) = (\<not> (u = hyphen \<and> v = hyphen) \<and> single_hyphens (v # us))"
| "single_hyphens us = True"

text \<open>
  A lower-casing function for concrete runs. It has the platform's mapping on the ASCII and
  Latin-1 capitals, on U+0130 (to \<open>i\<close> and U+0307, two code units) and on U+212A, the
  Kelvin sign (to \<open>k\<close>), and leaves every other code unit alone.
\<close>

definition lower_unit :: "code_unit \<Rightarrow> js_string" where
  "lower_unit u =
     (if 0x41 \<le> u \<and> u \<le> 0x5A then [u + 0x20]
      else if 0xC0 \<le> u \<and> u \<le> 0xDE \<and> u \<noteq> 0xD7 then [u + 0x20]
      else if u = 0x130 then [0x69, 0x307]
      else if u = 0x212A then [0x6B]
      else [u])"

definition sample_toLowerCase :: "js_string \<Rightarrow> js_string" where
  "sample_toLowerCase s = concat (map lower_unit s)"

section \<open>Data model of the storefront\<close>

text \<open>
  The interfaces \<open>Category\<close> and \<open>Product\<close> of the typed client. An optional property is an
  \<open>option\<close>; \<open>number\<close> is a rational for a price and an integer for a count.
\<close>

record category =
  cg_id :: string
  cg_name :: string
  cg_description :: "string option"
  cg_slug :: string
  cg_image_url :: "string option"
  cg_created_at :: string
  cg_updated_at :: string

record product =
  p_id :: string
  p_name :: string
  p_description :: "string option"
  p_price :: rat
  p_compare_at_price :: "rat option"
  p_category_id :: "string option"
  p_image_url :: "string option"
  p_images :: "string list option"
  p_inventory_count :: int
  p_sku :: "string option"
  p_is_active :: bool
  p_created_at :: string
  p_updated_at :: string
  p_categories :: "category option"

text \<open>
  A line item of the cart, \<open>{ product, quantity }\<close>, as the checkout page reads it
  (\<open>item.product.id\<close>, \<open>item.product.price\<close>, \<open>item.quantity\<close>).
\<close>

record cart_item =
  item_product :: product
  item_quantity :: int

text \<open>
  What a view gets from \<open>useCart()\<close>: the line items, the total price and \<open>clearCart\<close>, over
  a store of type \<open>'c\<close>.
\<close>

record 'c cart_context =
  ctx_items :: "'c \<Rightarrow> cart_item list"
  ctx_getTotalPrice :: "'c \<Rightarrow> rat"
  ctx_clearCart :: "'c \<Rightarrow> 'c"

section \<open>CheckoutPage.handleSubmit\<close>

text \<open>
  The form data of the checkout page, the two rows it sends to the data platform, the part of
  the created order it reads back (\<open>order.id\<close>, \<open>order.order_number\<close>), and the state of the view:
  the loading flag, the inline error message and the navigation it has made (path and order
  number).
\<close>

record checkout_form =
  f_fullName :: string
  f_email :: string
  f_phone :: string
  f_addressLine1 :: string
  f_addressLine2 :: string
  f_city :: string
  f_state :: string
  f_postalCode :: string
  f_country :: string
  f_notes :: string

record shipping_address =
  sa_full_name :: string
  sa_email :: string
  sa_phone :: string
  sa_address_line_1 :: string
  sa_address_line_2 :: string
  sa_city :: string
  sa_state :: string
  sa_postal_code :: string
  sa_country :: string

record order_insert =
  oi_user_id :: string
  oi_total_amount :: rat
  oi_status :: string
  oi_shipping_address :: shipping_address
  oi_notes :: string

record order_row =
  ord_id :: string
  ord_order_number :: string

record order_item_insert =
  oit_order_id :: string
  oit_product_id :: string
  oit_quantity :: int
  oit_price :: rat

record checkout_page =
  cp_loading :: bool
  cp_error :: string
  cp_navigated :: "(string \<times> string) option"

text \<open>
  The object passed to \<open>supabase.from('orders').insert([...])\<close>.
\<close>

definition order_of_form :: "string \<Rightarrow> rat \<Rightarrow> checkout_form \<Rightarrow> order_insert" where
  "order_of_form uid total_amount formData =
     \<lparr>oi_user_id = uid,
      oi_total_amount = total_amount,
      oi_status = ''pending'',
      oi_shipping_address =
        \<lparr>sa_full_name = f_fullName formData,
         sa_email = f_email formData,
         sa_phone = f_phone formData,
         sa_address_line_1 = f_addressLine1 formData,
         sa_address_line_2 = f_addressLine2 formData,
         sa_city = f_city formData,
         sa_state = f_state formData,
         sa_postal_code = f_postalCode formData,
         sa_country = f_country formData\<rparr>,
      oi_notes = f_notes formData\<rparr>"

text \<open>
  \<open>items.map(item => ({ order_id: order.id, product_id: item.product.id, ... }))\<close>.
\<close>

definition orderItems :: "order_row \<Rightarrow> cart_item list \<Rightarrow> order_item_insert list" where
  "orderItems order items =
     map (\<lambda>item. \<lparr>oit_order_id = ord_id order,
                    oit_product_id = p_id (item_product item),
                    oit_quantity = item_quantity item,
                    oit_price = p_price (item_product item)\<rparr>) items"

text \<open>
  The submission. \<open>user\<close> is the id of the signed-in user, \<open>None\<close> when nobody is signed in
  (the handler then returns at once). \<open>insert_order\<close> and \<open>insert_order_items\<close> are the two calls
  on the data platform: the first answers with the created order or with an error, the second
  with an error or with none. An error of either call is thrown and caught by the one \<open>catch\<close>
  block, which shows \<open>error.message || 'Failed to place order'\<close>; \<open>clearCart()\<close> and the
  navigation run only after both calls.
\<close>

definition checkout_handleSubmit ::
  "'c cart_context \<Rightarrow> (order_insert \<Rightarrow> api_error + order_row) \<Rightarrow>
   (order_item_insert list \<Rightarrow> api_error option) \<Rightarrow> string option \<Rightarrow> checkout_form \<Rightarrow>
   'c \<times> checkout_page \<Rightarrow> 'c \<times> checkout_page" where
  "checkout_handleSubmit cart insert_order insert_order_items user formData w =
     (case w of (store, page) \<Rightarrow>
      case user of
        None \<Rightarrow> (store, page)
      | Some uid \<Rightarrow>
          (let page1 = page\<lparr>cp_loading := True, cp_error := ''''\<rparr>
           in case insert_order (order_of_form uid (ctx_getTotalPrice cart store) formData) of
                Inl orderError \<Rightarrow>
                  (store, page1\<lparr>cp_error := message_or (err_message orderError) ''Failed to place order'',
                                cp_loading := False\<rparr>)
              | Inr order \<Rightarrow>
                  (case insert_order_items (orderItems order (ctx_items cart store)) of
                     Some itemsError \<Rightarrow>
                       (store, page1\<lparr>cp_error := message_or (err_message itemsError) ''Failed to place order'',
                                     cp_loading := False\<rparr>)
                   | None \<Rightarrow>
                       (ctx_clearCart cart store,
                        page1\<lparr>cp_navigated := Some (''/order-success'', ord_order_number order),
                              cp_loading := False\<rparr>))))"

section \<open>The cart store\<close>

text \<open>
  Modelled from the spec: the cart store (\<open>@/contexts/CartContext\<close>, the module behind
  \<open>useCart\<close>) is not among the sources. The spec describes its state as an ordered sequence of
  line items mirrored to local storage as "a serialized array of {product, quantity} pairs".
  A serialized value is kept as the structured value it denotes.
\<close>

datatype json =
  JNull | JBool bool | JNum rat | JStr string | JArr "json list" | JObj "(string \<times> json) list"

text \<open>
  Modelled from the spec: the text found in local storage under the cart's key is either the
  serialization of a structured value or a malformed payload that does not deserialize.
\<close>

datatype snapshot_text = Denotes json | Malformed string

text \<open>
  Modelled from the spec: the two ways in which deserializing a payload fails: the text is
  malformed, or the value does not have the shape of a line-item array.
\<close>

datatype js_exception = SyntaxError | TypeError

text \<open>
  Modelled from the spec: reading a structured value at the type a property of a line item
  has. \<open>None\<close> is a value of the wrong shape.
\<close>

definition as_string :: "json \<Rightarrow> string option" where
  "as_string j = (case j of JStr s \<Rightarrow> Some s | _ \<Rightarrow> None)"

text \<open>
  Modelled from the spec: a number property.
\<close>

definition as_number :: "json \<Rightarrow> rat option" where
  "as_number j = (case j of JNum r \<Rightarrow> Some r | _ \<Rightarrow> None)"

text \<open>
  Modelled from the spec: a number property that holds an integer (a quantity, a count).
\<close>

definition as_integer :: "json \<Rightarrow> int option" where
  "as_integer j =
     (case j of
        JNum r \<Rightarrow> (case quotient_of r of (n, d) \<Rightarrow> if d = 1 then Some n else None)
      | _ \<Rightarrow> None)"

text \<open>
  Modelled from the spec: a boolean property.
\<close>

definition as_boolean :: "json \<Rightarrow> bool option" where
  "as_boolean j = (case j of JBool b \<Rightarrow> Some b | _ \<Rightarrow> None)"

text \<open>
  Modelled from the spec: an array is read element by element; one unreadable element spoils
  the array.
\<close>

fun all_some :: "'a option list \<Rightarrow> 'a list option" where
  "all_some [] = Some []"
| "all_some (x # xs) =
     (case x of None \<Rightarrow> None
      | Some y \<Rightarrow> (case all_some xs of None \<Rightarrow> None | Some ys \<Rightarrow> Some (y # ys)))"

text \<open>
  Modelled from the spec: an array property.
\<close>

definition as_array :: "(json \<Rightarrow> 'a option) \<Rightarrow> json \<Rightarrow> 'a list option" where
  "as_array f j = (case j of JArr js \<Rightarrow> all_some (map f js) | _ \<Rightarrow> None)"

text \<open>
  Modelled from the spec: a property that must be present.
\<close>

definition required :: "(json \<Rightarrow> 'a option) \<Rightarrow> string \<Rightarrow> (string \<times> json) list \<Rightarrow> 'a option" where
  "required f k members = (case map_of members k of None \<Rightarrow> None | Some v \<Rightarrow> f v)"

text \<open>
  Modelled from the spec: a property that may be null.
\<close>

definition or_null :: "(json \<Rightarrow> 'a option) \<Rightarrow> json \<Rightarrow> 'a option option" where
  "or_null f v = (case v of JNull \<Rightarrow> Some None | _ \<Rightarrow> map_option Some (f v))"

text \<open>
  Modelled from the spec: a property that may be absent or null.
\<close>

definition optional ::
  "(json \<Rightarrow> 'a option) \<Rightarrow> string \<Rightarrow> (string \<times> json) list \<Rightarrow> 'a option option" where
  "optional f k members =
     (case map_of members k of None \<Rightarrow> Some None | Some v \<Rightarrow> or_null f v)"

text \<open>
  Modelled from the spec: an absent optional property is written as null.
\<close>

definition nullable :: "('a \<Rightarrow> json) \<Rightarrow> 'a option \<Rightarrow> json" where
  "nullable f x = (case x of None \<Rightarrow> JNull | Some v \<Rightarrow> f v)"

text \<open>
  Modelled from the spec: the serialized form of the category joined to a product snapshot.
\<close>

definition category_to_json :: "category \<Rightarrow> json" where
  "category_to_json c =
     JObj [(''id'', JStr (cg_id c)),
           (''name'', JStr (cg_name c)),
           (''description'', nullable JStr (cg_description c)),
           (''slug'', JStr (cg_slug c)),
           (''image_url'', nullable JStr (cg_image_url c)),
           (''created_at'', JStr (cg_created_at c)),
           (''updated_at'', JStr (cg_updated_at c))]"

text \<open>
  Modelled from the spec: deserializing a category.
\<close>

definition category_of_json :: "json \<Rightarrow> category option" where
  "category_of_json j =
     (case j of
        JObj members \<Rightarrow>
          do {
            cid \<leftarrow> required as_string ''id'' members;
            name \<leftarrow> required as_string ''name'' members;
            description \<leftarrow> optional as_string ''description'' members;
            slug \<leftarrow> required as_string ''slug'' members;
            image_url \<leftarrow> optional as_string ''image_url'' members;
            created_at \<leftarrow> required as_string ''created_at'' members;
            updated_at \<leftarrow> required as_string ''updated_at'' members;
            Some \<lparr>cg_id = cid, cg_name = name, cg_description = description, cg_slug = slug,
                  cg_image_url = image_url, cg_created_at = created_at,
                  cg_updated_at = updated_at\<rparr>
          }
      | _ \<Rightarrow> None)"

text \<open>
  Modelled from the spec: the serialized form of a product snapshot, property by property.
\<close>

definition product_to_json :: "product \<Rightarrow> json" where
  "product_to_json p =
     JObj [(''id'', JStr (p_id p)),
           (''name'', JStr (p_name p)),
           (''description'', nullable JStr (p_description p)),
           (''price'', JNum (p_price p)),
           (''compare_at_price'', nullable JNum (p_compare_at_price p)),
           (''category_id'', nullable JStr (p_category_id p)),
           (''image_url'', nullable JStr (p_image_url p)),
           (''images'', nullable (\<lambda>xs. JArr (map JStr xs)) (p_images p)),
           (''inventory_count'', JNum (of_int (p_inventory_count p))),
           (''sku'', nullable JStr (p_sku p)),
           (''is_active'', JBool (p_is_active p)),
           (''created_at'', JStr (p_created_at p)),
           (''updated_at'', JStr (p_updated_at p)),
           (''categories'', nullable category_to_json (p_categories p))]"

text \<open>
  Modelled from the spec: deserializing a product snapshot.
\<close>

definition product_of_json :: "json \<Rightarrow> product option" where
  "product_of_json j =
     (case j of
        JObj members \<Rightarrow>
          do {
            pid \<leftarrow> required as_string ''id'' members;
            name \<leftarrow> required as_string ''name'' members;
            description \<leftarrow> optional as_string ''description'' members;
            price \<leftarrow> required as_number ''price'' members;
            compare_at_price \<leftarrow> optional as_number ''compare_at_price'' members;
            category_id \<leftarrow> optional as_string ''category_id'' members;
            image_url \<leftarrow> optional as_string ''image_url'' members;
            images \<leftarrow> optional (as_array as_string) ''images'' members;
            inventory_count \<leftarrow> required as_integer ''inventory_count'' members;
            sku \<leftarrow> optional as_string ''sku'' members;
            is_active \<leftarrow> required as_boolean ''is_active'' members;
            created_at \<leftarrow> required as_string ''created_at'' members;
            updated_at \<leftarrow> required as_string ''updated_at'' members;
            categories \<leftarrow> optional category_of_json ''categories'' members;
            Some \<lparr>p_id = pid, p_name = name, p_description = description, p_price = price,
                  p_compare_at_price = compare_at_price, p_category_id = category_id,
                  p_image_url = image_url, p_images = images,
                  p_inventory_count = inventory_count, p_sku = sku, p_is_active = is_active,
                  p_created_at = created_at, p_updated_at = updated_at,
                  p_categories = categories\<rparr>
          }
      | _ \<Rightarrow> None)"

text \<open>
  Modelled from the spec: the serialized form of a line item, a \<open>{product, quantity}\<close> pair.
\<close>

definition item_to_json :: "cart_item \<Rightarrow> json" where
  "item_to_json i =
     JObj [(''product'', product_to_json (item_product i)),
           (''quantity'', JNum (of_int (item_quantity i)))]"

text \<open>
  Modelled from the spec: deserializing a line item.
\<close>

definition item_of_json :: "json \<Rightarrow> cart_item option" where
  "item_of_json j =
     (case j of
        JObj members \<Rightarrow>
          do {
            p \<leftarrow> required product_of_json ''product'' members;
            quantity \<leftarrow> required as_integer ''quantity'' members;
            Some \<lparr>item_product = p, item_quantity = quantity\<rparr>
          }
      | _ \<Rightarrow> None)"

text \<open>
  Modelled from the spec: "serializes the full line-item sequence".
\<close>

definition serialize :: "cart_item list \<Rightarrow> snapshot_text" where
  "serialize items = Denotes (JArr (map item_to_json items))"

text \<open>
  Modelled from the spec: the attempt to deserialize a payload; it fails on a malformed payload
  and on a value that is not an array of line items.
\<close>

definition deserialize :: "snapshot_text \<Rightarrow> js_exception + cart_item list" where
  "deserialize t =
     (case t of
        Malformed s \<Rightarrow> Inl SyntaxError
      | Denotes j \<Rightarrow>
          (case as_array item_of_json j of None \<Rightarrow> Inl TypeError | Some items \<Rightarrow> Inr items))"

text \<open>
  Modelled from the spec: the state of the cart store, the line items in memory and the content
  of local storage under the cart's fixed key (\<open>None\<close> when the key is missing).
\<close>

record cart_store =
  cs_items :: "cart_item list"
  cs_persisted :: "snapshot_text option"

text \<open>
  Modelled from the spec: "on initialization the store attempts to deserialize that key; a
  missing or corrupt payload yields an empty cart (fails open, never throws to the caller)".
  The result is a sum so that a throw to the caller would be a value \<open>Inl\<close>.
\<close>

definition initialize :: "snapshot_text option \<Rightarrow> js_exception + cart_store" where
  "initialize payload =
     (case payload of
        None \<Rightarrow> Inr \<lparr>cs_items = [], cs_persisted = payload\<rparr>
      | Some t \<Rightarrow>
          (case deserialize t of
             Inl exn \<Rightarrow> Inr \<lparr>cs_items = [], cs_persisted = payload\<rparr>
           | Inr items \<Rightarrow> Inr \<lparr>cs_items = items, cs_persisted = payload\<rparr>))"

text \<open>
  Modelled from the spec: "every mutating operation synchronously serializes the full line-item
  sequence to durable local client storage under a fixed key".
\<close>

definition persist :: "cart_item list \<Rightarrow> cart_store" where
  "persist items = \<lparr>cs_items = items, cs_persisted = Some (serialize items)\<rparr>"

text \<open>
  Modelled from the spec: line items are keyed by product identifier.
\<close>

definition item_id :: "cart_item \<Rightarrow> string" where
  "item_id i = p_id (item_product i)"

text \<open>
  Modelled from the spec: "if a line item for product.id exists, increments its quantity by
  quantity; otherwise appends a new line item with that quantity".
\<close>

definition addItem :: "product \<Rightarrow> int \<Rightarrow> cart_store \<Rightarrow> cart_store" where
  "addItem p quantity st =
     persist
       (if p_id p \<in> set (map item_id (cs_items st))
        then map (\<lambda>i. if item_id i = p_id p
                       then i\<lparr>item_quantity := item_quantity i + quantity\<rparr> else i)
               (cs_items st)
        else cs_items st @ [\<lparr>item_product = p, item_quantity = quantity\<rparr>])"

text \<open>
  Modelled from the spec: "empties the cart".
\<close>

definition clearCart :: "cart_store \<Rightarrow> cart_store" where
  "clearCart st = persist []"

text \<open>
  Modelled from the spec: "returns the sum of quantities across all line items".
\<close>

definition getTotalItems :: "cart_store \<Rightarrow> int" where
  "getTotalItems st = sum_list (map item_quantity (cs_items st))"

text \<open>
  Modelled from the spec: "returns the sum of product.price * quantity across all line items,
  using the price captured at add-time".
\<close>

definition getTotalPrice :: "cart_store \<Rightarrow> rat" where
  "getTotalPrice st =
     sum_list (map (\<lambda>i. p_price (item_product i) * of_int (item_quantity i)) (cs_items st))"

text \<open>
  Modelled from the spec: the store as the views receive it.
\<close>

definition useCart :: "cart_store cart_context" where
  "useCart = \<lparr>ctx_items = cs_items, ctx_getTotalPrice = getTotalPrice, ctx_clearCart = clearCart\<rparr>"

section \<open>The products table\<close>














section \<open>AddressForm.handleSubmit\<close>

text \<open>
  The object \<open>addressData\<close> the form writes, a row of the table \<open>addresses\<close>, and the state of
  the view (\<open>af_saved\<close> records that \<open>onSave\<close> ran).
\<close>

record address_data =
  ad_user_id :: string
  ad_full_name :: string
  ad_address_line_1 :: string
  ad_address_line_2 :: "string option"
  ad_city :: string
  ad_state :: string
  ad_postal_code :: string
  ad_country :: string
  ad_phone :: "string option"
  ad_is_default :: bool
  ad_updated_at :: string

record address_row =
  ar_id :: string
  ar_columns :: address_data
  ar_created_at :: string

record address_form =
  af_loading :: bool
  af_error :: string
  af_saved :: bool

text \<open>
  What the platform contributes to one submission: the error, if any, with which it answers
  the first call and the second call (a call answered with an error writes nothing), the id
  it gives to an inserted row, and the current time.
\<close>

record address_call_answers =
  first_error :: "api_error option"
  second_error :: "api_error option"
  new_id :: string
  now :: string

text \<open>
  \<open>.update(addressData).eq('id', address.id)\<close>.
\<close>

definition addresses_update_eq_id :: "address_data \<Rightarrow> string \<Rightarrow> address_row list \<Rightarrow> address_row list" where
  "addresses_update_eq_id addressData aid rows =
     map (\<lambda>r. if ar_id r = aid then r\<lparr>ar_columns := addressData\<rparr> else r) rows"

text \<open>
  \<open>.insert([addressData])\<close>.
\<close>

definition addresses_insert ::
  "string \<Rightarrow> string \<Rightarrow> address_data \<Rightarrow> address_row list \<Rightarrow> address_row list" where
  "addresses_insert fresh_id created addressData rows =
     rows @ [\<lparr>ar_id = fresh_id, ar_columns = addressData, ar_created_at = created\<rparr>]"

text \<open>
  \<open>.update({ is_default: false }).eq('user_id', user.id).neq('id', excluded)\<close>.
\<close>

definition addresses_unset_default :: "string \<Rightarrow> string \<Rightarrow> address_row list \<Rightarrow> address_row list" where
  "addresses_unset_default uid excluded rows =
     map (\<lambda>r. if ad_user_id (ar_columns r) = uid \<and> ar_id r \<noteq> excluded
              then r\<lparr>ar_columns := (ar_columns r)\<lparr>ad_is_default := False\<rparr>\<rparr> else r) rows"

text \<open>
  The table after the first call: the update of the edited address (\<open>address\<close> is its id) or
  the insert of a new one.
\<close>

definition address_first_write ::
  "address_call_answers \<Rightarrow> string option \<Rightarrow> address_data \<Rightarrow> address_row list \<Rightarrow> address_row list" where
  "address_first_write answers address addressData rows =
     (case address of
        Some aid \<Rightarrow> addresses_update_eq_id addressData aid rows
      | None \<Rightarrow> addresses_insert (new_id answers) (now answers) addressData rows)"

text \<open>
  The submission. An error of the first call is thrown and shown; the answer of the second
  call is not looked at. The second call excludes \<open>address?.id || ''\<close>, which is the empty
  string when a new address is saved.
\<close>

definition address_handleSubmit ::
  "address_call_answers \<Rightarrow> string option \<Rightarrow> string option \<Rightarrow> address_data \<Rightarrow>
   address_row list \<times> address_form \<Rightarrow> address_row list \<times> address_form" where
  "address_handleSubmit answers user address formData w =
     (case w of (rows, view) \<Rightarrow>
      case user of
        None \<Rightarrow> (rows, view)
      | Some uid \<Rightarrow>
          (let view1 = view\<lparr>af_loading := True, af_error := []\<rparr>;
               addressData = formData\<lparr>ad_user_id := uid, ad_updated_at := now answers\<rparr>
           in case first_error answers of
                Some e \<Rightarrow>
                  (rows, view1\<lparr>af_error := message_or (err_message e) ''Failed to save address'',
                               af_loading := False\<rparr>)
              | None \<Rightarrow>
                  (let rows1 = address_first_write answers address addressData rows;
                       rows2 = (if ad_is_default formData \<and> second_error answers = None
                                then addresses_unset_default uid
                                       (case address of Some aid \<Rightarrow> aid | None \<Rightarrow> []) rows1
                                else rows1)
                   in (rows2, view1\<lparr>af_saved := True, af_loading := False\<rparr>))))"

text \<open>
  The id and the default flag of every row, in table order.
\<close>

definition default_flags :: "address_row list \<Rightarrow> (string \<times> bool) list" where
  "default_flags rows = map (\<lambda>r. (ar_id r, ad_is_default (ar_columns r))) rows"

text \<open>
  An address of a given owner, and a table with one default address \<open>a1\<close> of owner \<open>u1\<close>.
\<close>

definition sample_address :: "string \<Rightarrow> bool \<Rightarrow> address_data" where
  "sample_address uid dflt =
     \<lparr>ad_user_id = uid, ad_full_name = ''Ada Lovelace'', ad_address_line_1 = ''12 St James Square'',
      ad_address_line_2 = None, ad_city = ''London'', ad_state = ''LN'', ad_postal_code = ''SW1Y'',
      ad_country = ''UK'', ad_phone = None, ad_is_default = dflt, ad_updated_at = ''2025-07-05''\<rparr>"

definition sample_addresses :: "address_row list" where
  "sample_addresses =
     [\<lparr>ar_id = ''a1'', ar_columns = sample_address ''u1'' True, ar_created_at = ''2025-07-05''\<rparr>]"

section \<open>Sample data\<close>

text \<open>
  A product with a given id and price, a call \<open>addItem(product, quantity)\<close> as a pair, and a
  filled-in checkout form with a one-item cart, for concrete runs of the operations.
\<close>

definition sample_product :: "string \<Rightarrow> rat \<Rightarrow> product" where
  "sample_product pid price =
     \<lparr>p_id = pid, p_name = pid, p_description = None, p_price = price,
      p_compare_at_price = None, p_category_id = None, p_image_url = None, p_images = None,
      p_inventory_count = 10, p_sku = None, p_is_active = True,
      p_created_at = ''2025-07-05T10:42:31Z'', p_updated_at = ''2025-07-05T10:42:31Z'',
      p_categories = None\<rparr>"

definition line_item :: "product \<times> int \<Rightarrow> cart_item" where
  "line_item c = \<lparr>item_product = fst c, item_quantity = snd c\<rparr>"

definition add_call :: "product \<times> int \<Rightarrow> cart_store \<Rightarrow> cart_store" where
  "add_call c st = addItem (fst c) (snd c) st"

definition sample_form :: checkout_form where
  "sample_form =
     \<lparr>f_fullName = ''Ada Lovelace'', f_email = ''ada@example.org'', f_phone = '''',
      f_addressLine1 = ''12 St James Square'', f_addressLine2 = '''', f_city = ''London'',
      f_state = ''LN'', f_postalCode = ''SW1Y'', f_country = ''UK'', f_notes = ''''\<rparr>"

definition sample_store :: cart_store where
  "sample_store = persist [\<lparr>item_product = sample_product ''A'' 10, item_quantity = 2\<rparr>]"

section \<open>Substring search\<close>

lemma starts_with_iff: "starts_with s t \<longleftrightarrow> (\<exists>suf. s = t @ suf)"
  by (induction s t rule: starts_with.induct) auto

lemma includes_iff: "str_includes s t \<longleftrightarrow> sublist t s"
proof (induction s)
  case Nil
  then show ?case by simp
next
  case (Cons d s)
  have "starts_with (d # s) t \<longleftrightarrow> prefix t (d # s)"
    by (simp add: starts_with_iff prefix_def)
  then show ?case
    using Cons.IH by (auto simp: sublist_Cons_right)
qed

section \<open>Properties of the category form\<close>

text \<open>
  Claim C8. Whenever the save call of the category form (the update of an edited category or
  the insert of a new one) answers with an error, the form shows the duplicate-slug message
  when the error carries the code 23505, and the error's own message, or the generic
  fallback when it has none, for every other error. So, unless the error's own text is the
  duplicate-slug sentence itself, the duplicate-slug message is shown exactly for the code
  23505. \<open>onSave\<close> does not run.
\<close>

theorem category_save_error_text:
  assumes "(case editing of Some cid \<Rightarrow> db_update d cid | None \<Rightarrow> db_insert d) = Some e"
  shows "(err_code e = Some ''23505'' \<longrightarrow>
            cf_error (category_handleSubmit db_update db_insert editing d st) =
              ''A category with this slug already exists. Please choose a different name.'') \<and>
         (err_code e \<noteq> Some ''23505'' \<longrightarrow>
            cf_error (category_handleSubmit db_update db_insert editing d st) =
              message_or (err_message e) ''Failed to save category'') \<and>
         (message_or (err_message e) ''Failed to save category'' \<noteq>
              ''A category with this slug already exists. Please choose a different name.'' \<longrightarrow>
            (cf_error (category_handleSubmit db_update db_insert editing d st) =
              ''A category with this slug already exists. Please choose a different name.''
               \<longleftrightarrow> err_code e = Some ''23505'')) \<and>
         cf_saved (category_handleSubmit db_update db_insert editing d st) = cf_saved st"
  using assms by (simp add: category_handleSubmit_def category_error_text_def Let_def)

theorem category_save_error_text_witness:
  "cf_error (category_handleSubmit (\<lambda>_ _. None)
       (\<lambda>_. Some \<lparr>err_message = Some ''duplicate key value violates unique constraint'',
                  err_code = Some ''23505''\<rparr>)
       None \<lparr>cat_name = ''Books'', cat_description = None, cat_slug = ''books'',
             cat_image_url = None, cat_updated_at = ''2025-07-05''\<rparr>
       \<lparr>cf_loading = False, cf_error = '''', cf_saved = False\<rparr>) =
              ''A category with this slug already exists. Please choose a different name.''
   \<and> cf_error (category_handleSubmit
       (\<lambda>_ _. Some \<lparr>err_message = Some ''Failed to fetch'', err_code = None\<rparr>) (\<lambda>_. None)
       (Some ''c1'') \<lparr>cat_name = ''Books'', cat_description = None, cat_slug = ''books'',
             cat_image_url = None, cat_updated_at = ''2025-07-05''\<rparr>
       \<lparr>cf_loading = False, cf_error = '''', cf_saved = False\<rparr>) = ''Failed to fetch''"
  using category_save_error_text [where editing = None and db_update = "\<lambda>_ _. None"
        and db_insert = "\<lambda>_. Some \<lparr>err_message = Some ''duplicate key value violates unique constraint'',
                  err_code = Some ''23505''\<rparr>"
        and e = "\<lparr>err_message = Some ''duplicate key value violates unique constraint'',
                  err_code = Some ''23505''\<rparr>"
        and d = "\<lparr>cat_name = ''Books'', cat_description = None, cat_slug = ''books'',
             cat_image_url = None, cat_updated_at = ''2025-07-05''\<rparr>"
        and st = "\<lparr>cf_loading = False, cf_error = '''', cf_saved = False\<rparr>"]
     category_save_error_text [where editing = "Some ''c1''" and db_insert = "\<lambda>_. None"
        and db_update = "\<lambda>_ _. Some \<lparr>err_message = Some ''Failed to fetch'', err_code = None\<rparr>"
        and e = "\<lparr>err_message = Some ''Failed to fetch'', err_code = None\<rparr>"
        and d = "\<lparr>cat_name = ''Books'', cat_description = None, cat_slug = ''books'',
             cat_image_url = None, cat_updated_at = ''2025-07-05''\<rparr>"
        and st = "\<lparr>cf_loading = False, cf_error = '''', cf_saved = False\<rparr>"]
  by (simp add: message_or_def)

section \<open>Properties of the login view\<close>

text \<open>
  Claim C9. Whenever \<open>signIn\<close> throws, the login view chooses the message by substring
  match on the error's message text: the credentials message when it contains
  "Invalid login credentials", else the confirmation message when it contains
  "Email not confirmed", else the raw message or the generic fallback. The view does not
  navigate.
\<close>

theorem login_error_text_by_substring:
  assumes "signIn email password = Some e"
  shows "((\<exists>m. err_message e = Some m \<and> sublist ''Invalid login credentials'' m) \<longrightarrow>
            lp_error (login_handleSubmit signIn email password from_path st) =
              ''Invalid email or password. Please check your credentials and try again.'') \<and>
         (\<not> (\<exists>m. err_message e = Some m \<and> sublist ''Invalid login credentials'' m) \<and>
          (\<exists>m. err_message e = Some m \<and> sublist ''Email not confirmed'' m) \<longrightarrow>
            lp_error (login_handleSubmit signIn email password from_path st) =
              ''Please check your email and click the confirmation link before signing in.'') \<and>
         (\<not> (\<exists>m. err_message e = Some m \<and> sublist ''Invalid login credentials'' m) \<and>
          \<not> (\<exists>m. err_message e = Some m \<and> sublist ''Email not confirmed'' m) \<longrightarrow>
            lp_error (login_handleSubmit signIn email password from_path st) =
              message_or (err_message e) ''Failed to sign in'') \<and>
         lp_navigated (login_handleSubmit signIn email password from_path st) = lp_navigated st"
proof -
  have inc: "message_includes e t \<longleftrightarrow> (\<exists>m. err_message e = Some m \<and> sublist t m)" for t
    by (cases "err_message e") (auto simp: message_includes_def includes_iff)
  show ?thesis
    using assms unfolding inc [symmetric]
    by (simp add: login_handleSubmit_def login_error_text_def Let_def)
qed

theorem login_error_text_by_substring_witness:
  "lp_error (login_handleSubmit
       (\<lambda>_ _. Some \<lparr>err_message = Some ''AuthApiError: Invalid login credentials'', err_code = None\<rparr>)
       ''a@b.c'' ''pw'' ''/dashboard''
       \<lparr>lp_loading = False, lp_error = '''', lp_navigated = None\<rparr>) =
              ''Invalid email or password. Please check your credentials and try again.''
   \<and> lp_error (login_handleSubmit
       (\<lambda>_ _. Some \<lparr>err_message = Some ''Email not confirmed'', err_code = None\<rparr>)
       ''a@b.c'' ''pw'' ''/dashboard''
       \<lparr>lp_loading = False, lp_error = '''', lp_navigated = None\<rparr>) =
              ''Please check your email and click the confirmation link before signing in.''
   \<and> lp_error (login_handleSubmit
       (\<lambda>_ _. Some \<lparr>err_message = Some ''Failed to fetch'', err_code = None\<rparr>)
       ''a@b.c'' ''pw'' ''/dashboard''
       \<lparr>lp_loading = False, lp_error = '''', lp_navigated = None\<rparr>) = ''Failed to fetch''"
  using login_error_text_by_substring [where
          signIn = "\<lambda>_ _. Some \<lparr>err_message = Some ''AuthApiError: Invalid login credentials'', err_code = None\<rparr>"
          and e = "\<lparr>err_message = Some ''AuthApiError: Invalid login credentials'', err_code = None\<rparr>"
          and email = "''a@b.c''" and password = "''pw''" and from_path = "''/dashboard''"
          and st = "\<lparr>lp_loading = False, lp_error = '''', lp_navigated = None\<rparr>"]
        login_error_text_by_substring [where
          signIn = "\<lambda>_ _. Some \<lparr>err_message = Some ''Email not confirmed'', err_code = None\<rparr>"
          and e = "\<lparr>err_message = Some ''Email not confirmed'', err_code = None\<rparr>"
          and email = "''a@b.c''" and password = "''pw''" and from_path = "''/dashboard''"
          and st = "\<lparr>lp_loading = False, lp_error = '''', lp_navigated = None\<rparr>"]
        login_error_text_by_substring [where
          signIn = "\<lambda>_ _. Some \<lparr>err_message = Some ''Failed to fetch'', err_code = None\<rparr>"
          and e = "\<lparr>err_message = Some ''Failed to fetch'', err_code = None\<rparr>"
          and email = "''a@b.c''" and password = "''pw''" and from_path = "''/dashboard''"
          and st = "\<lparr>lp_loading = False, lp_error = '''', lp_navigated = None\<rparr>"]
  by (simp add: includes_iff [symmetric] message_or_def)

section \<open>Properties of generateSlug\<close>

lemma hyphen_not_alnum: "\<not> is_alnum hyphen"
  by (simp add: is_alnum_def alnum_alphabet_def ascii_units_def hyphen_def)

lemma slug_alphabet_literal:
  "slug_alphabet = map of_char ''abcdefghijklmnopqrstuvwxyz0123456789-''"
  by (simp add: slug_alphabet_def alnum_alphabet_def ascii_units_def hyphen_def)

lemma hyphen_literal: "map of_char ''--'' = [hyphen, hyphen]"
  by (simp add: ascii_units_def hyphen_def)

lemma lower_unit_fixes_all: "\<forall>u \<in> set slug_alphabet. lower_unit u = [u]"
  unfolding slug_alphabet_literal by (simp add: lower_unit_def ascii_units_def)

lemma alnum_not_hyphen: "is_alnum u \<Longrightarrow> u \<noteq> hyphen"
  using hyphen_not_alnum by blast

lemma slug_unit_cases: "u \<in> set slug_alphabet \<longleftrightarrow> is_alnum u \<or> u = hyphen"
  by (auto simp: slug_alphabet_def is_alnum_def)

lemma sample_toLowerCase_fixes: "set t \<subseteq> set slug_alphabet \<Longrightarrow> sample_toLowerCase t = t"
proof (induction t)
  case Nil
  then show ?case by (simp add: sample_toLowerCase_def)
next
  case (Cons u t)
  then have "lower_unit u = [u]" using lower_unit_fixes_all by simp
  moreover have "sample_toLowerCase t = t" using Cons by simp
  ultimately show ?case by (simp add: sample_toLowerCase_def)
qed

lemma single_hyphens_Cons:
  "single_hyphens (u # r) \<longleftrightarrow> (r \<noteq> [] \<longrightarrow> \<not> (u = hyphen \<and> hd r = hyphen)) \<and> single_hyphens r"
  by (cases r) auto

lemma replace_runs_units:
  "u \<in> set (replace_non_alnum_runs s) \<Longrightarrow> is_alnum u \<or> u = hyphen"
  by (induction s rule: replace_non_alnum_runs.induct) (auto split: if_splits)

lemma replace_runs_head:
  "s = [] \<or> is_alnum (hd s) \<Longrightarrow>
   replace_non_alnum_runs s = [] \<or> is_alnum (hd (replace_non_alnum_runs s))"
  by (cases s) auto

lemma dropWhile_head: "dropWhile P xs = [] \<or> \<not> P (hd (dropWhile P xs))"
  using hd_dropWhile [of P xs] by blast

lemma replace_runs_single_hyphens: "single_hyphens (replace_non_alnum_runs s)"
proof (induction s rule: replace_non_alnum_runs.induct)
  case 1
  then show ?case by simp
next
  case (2 u us)
  show ?case
  proof (cases "is_alnum u")
    case True
    with 2 show ?thesis by (simp add: single_hyphens_Cons alnum_not_hyphen)
  next
    case False
    let ?r = "replace_non_alnum_runs (dropWhile (\<lambda>v. \<not> is_alnum v) us)"
    have "?r = [] \<or> is_alnum (hd ?r)"
      using dropWhile_head [of "\<lambda>v. \<not> is_alnum v" us] by (intro replace_runs_head) auto
    then have "?r \<noteq> [] \<longrightarrow> hd ?r \<noteq> hyphen"
      using alnum_not_hyphen by blast
    with 2 False show ?thesis by (simp add: single_hyphens_Cons)
  qed
qed

lemma single_hyphens_iff: "single_hyphens s \<longleftrightarrow> \<not> sublist [hyphen, hyphen] s"
  by (induction s rule: single_hyphens.induct) (auto simp: sublist_Cons_right)

lemma single_hyphens_tail: "single_hyphens (u # s) \<Longrightarrow> single_hyphens s"
  by (simp add: single_hyphens_Cons)

lemma single_hyphens_butlast: "single_hyphens s \<Longrightarrow> single_hyphens (butlast s)"
  by (induction s rule: single_hyphens.induct) (auto simp: single_hyphens_Cons)

lemma last_butlast_not_hyphen:
  "single_hyphens s \<Longrightarrow> last s = hyphen \<Longrightarrow> butlast s \<noteq> [] \<Longrightarrow>
   last (butlast s) \<noteq> hyphen"
  by (induction s rule: single_hyphens.induct) (auto split: if_splits)

lemma strip_edge_hyphens_subset: "set (strip_edge_hyphens s) \<subseteq> set s"
  by (cases s) (auto simp: strip_edge_hyphens_def Let_def dest: in_set_butlastD)

lemma strip_edge_hyphens_shape:
  assumes "single_hyphens s"
  shows "single_hyphens (strip_edge_hyphens s) \<and>
         (strip_edge_hyphens s \<noteq> [] \<longrightarrow>
            hd (strip_edge_hyphens s) \<noteq> hyphen \<and> last (strip_edge_hyphens s) \<noteq> hyphen)"
proof -
  define s1 where "s1 = (case s of [] \<Rightarrow> [] | u # us \<Rightarrow> if u = hyphen then us else s)"
  have r: "strip_edge_hyphens s = (if s1 \<noteq> [] \<and> last s1 = hyphen then butlast s1 else s1)"
    by (simp add: strip_edge_hyphens_def s1_def)
  have sh1: "single_hyphens s1"
    using assms by (cases s) (auto simp: s1_def dest: single_hyphens_tail)
  have hd1: "s1 \<noteq> [] \<longrightarrow> hd s1 \<noteq> hyphen"
    using assms by (cases s) (auto simp: s1_def single_hyphens_Cons)
  show ?thesis
  proof (cases "s1 \<noteq> [] \<and> last s1 = hyphen")
    case True
    then have eq: "strip_edge_hyphens s = butlast s1" by (simp add: r)
    have "butlast s1 \<noteq> [] \<longrightarrow> hd (butlast s1) = hd s1"
      by (cases s1) auto
    moreover have "butlast s1 \<noteq> [] \<longrightarrow> last (butlast s1) \<noteq> hyphen"
      using sh1 True last_butlast_not_hyphen by blast
    ultimately show ?thesis
      using sh1 hd1 True by (auto simp: eq single_hyphens_butlast)
  next
    case False
    then have "strip_edge_hyphens s = s1" by (auto simp: r)
    with False sh1 hd1 show ?thesis by auto
  qed
qed

lemma replace_runs_fixes_slugs:
  "set t \<subseteq> set slug_alphabet \<Longrightarrow> single_hyphens t \<Longrightarrow> replace_non_alnum_runs t = t"
proof (induction t)
  case Nil
  then show ?case by simp
next
  case (Cons u us)
  then have ih: "replace_non_alnum_runs us = us"
    by (auto dest: single_hyphens_tail)
  show ?case
  proof (cases "is_alnum u")
    case True
    then show ?thesis by (simp add: ih)
  next
    case False
    with Cons.prems have u: "u = hyphen"
      using slug_unit_cases [of u] by simp
    have "us = [] \<or> is_alnum (hd us)"
    proof (cases us)
      case Nil
      then show ?thesis by simp
    next
      case (Cons v vs)
      with Cons.prems u have "v \<noteq> hyphen" "v \<in> set slug_alphabet"
        by auto
      then have "is_alnum v" using slug_unit_cases [of v] by simp
      with Cons show ?thesis by simp
    qed
    then have "dropWhile (\<lambda>v. \<not> is_alnum v) us = us"
      by (cases us) auto
    with False show ?thesis by (simp add: ih u)
  qed
qed

lemma strip_edge_hyphens_fixes:
  "t = [] \<or> (hd t \<noteq> hyphen \<and> last t \<noteq> hyphen) \<Longrightarrow> strip_edge_hyphens t = t"
  by (cases t) (auto simp: strip_edge_hyphens_def)

text \<open>
  Claim C10. For every input string and whatever \<open>toLowerCase\<close> returns for it,
  \<open>generateSlug\<close> returns a string made only of small ASCII letters, digits and hyphens
  (possibly the empty string), which neither starts nor ends with a hyphen and has no two
  hyphens in a row. Consequently, \<open>toLowerCase\<close> leaving every string of small ASCII
  letters, digits and hyphens as it is, \<open>generateSlug\<close> applied to its own result returns
  that result.
\<close>

theorem generateSlug_shape_idempotent:
  "set (generateSlug toLowerCase s) \<subseteq> set (map of_char ''abcdefghijklmnopqrstuvwxyz0123456789-'') \<and>
   (generateSlug toLowerCase s \<noteq> [] \<longrightarrow>
      hd (generateSlug toLowerCase s) \<noteq> of_char CHR ''-'' \<and>
      last (generateSlug toLowerCase s) \<noteq> of_char CHR ''-'') \<and>
   \<not> sublist (map of_char ''--'') (generateSlug toLowerCase s) \<and>
   ((\<forall>t. set t \<subseteq> set (map of_char ''abcdefghijklmnopqrstuvwxyz0123456789-'') \<longrightarrow>
         toLowerCase t = t) \<longrightarrow>
    generateSlug toLowerCase (generateSlug toLowerCase s) = generateSlug toLowerCase s)"
proof -
  let ?r = "replace_non_alnum_runs (toLowerCase s)"
  let ?g = "generateSlug toLowerCase s"
  have g: "?g = strip_edge_hyphens ?r" by (simp add: generateSlug_def)
  have units: "set ?g \<subseteq> set slug_alphabet"
  proof
    fix u assume "u \<in> set ?g"
    then have "u \<in> set ?r" using strip_edge_hyphens_subset g by auto
    then have "is_alnum u \<or> u = hyphen" by (rule replace_runs_units)
    then show "u \<in> set slug_alphabet"
      using slug_unit_cases [of u] by simp
  qed
  have shape: "single_hyphens ?g \<and> (?g \<noteq> [] \<longrightarrow> hd ?g \<noteq> hyphen \<and> last ?g \<noteq> hyphen)"
    unfolding g by (rule strip_edge_hyphens_shape) (rule replace_runs_single_hyphens)
  have idem: "generateSlug toLowerCase ?g = ?g"
    if fx: "\<forall>t. set t \<subseteq> set slug_alphabet \<longrightarrow> toLowerCase t = t"
  proof -
    have "toLowerCase ?g = ?g" using units fx by blast
    moreover have "replace_non_alnum_runs ?g = ?g"
      using units shape by (simp add: replace_runs_fixes_slugs)
    moreover have "strip_edge_hyphens ?g = ?g"
      using shape by (intro strip_edge_hyphens_fixes) blast
    ultimately show ?thesis by (simp add: generateSlug_def)
  qed
  have h: "of_char CHR ''-'' = hyphen" by (simp add: hyphen_def)
  from units shape idem show ?thesis
    unfolding slug_alphabet_literal [symmetric] hyphen_literal h
    by (simp add: single_hyphens_iff)
qed

theorem generateSlug_shape_idempotent_witness:
  "generateSlug sample_toLowerCase (map of_char ''Home & '' @ [0x212A, 0x130]) =
     map of_char ''home-ki'' \<and>
   hd (generateSlug sample_toLowerCase (map of_char ''Home & '' @ [0x212A, 0x130])) \<noteq>
     of_char CHR ''-'' \<and>
   last (generateSlug sample_toLowerCase (map of_char ''Home & '' @ [0x212A, 0x130])) \<noteq>
     of_char CHR ''-'' \<and>
   generateSlug sample_toLowerCase (map of_char ''home-ki'') = map of_char ''home-ki''"
proof -
  have f: "\<forall>t. set t \<subseteq> set (map of_char ''abcdefghijklmnopqrstuvwxyz0123456789-'') \<longrightarrow>
      sample_toLowerCase t = t"
    unfolding slug_alphabet_literal [symmetric] using sample_toLowerCase_fixes by blast
  have e: "generateSlug sample_toLowerCase (map of_char ''Home & '' @ [0x212A, 0x130]) =
      map of_char ''home-ki''"
    by (simp add: generateSlug_def sample_toLowerCase_def lower_unit_def is_alnum_def
        alnum_alphabet_def strip_edge_hyphens_def ascii_units_def hyphen_def)
  show ?thesis
    using generateSlug_shape_idempotent [of sample_toLowerCase
        "map of_char ''Home & '' @ [0x212A, 0x130]"] f
    unfolding e by (simp add: ascii_units_def)
qed

section \<open>Properties of the checkout submission\<close>

text \<open>
  Claim C3. In the checkout submission the cart is cleared exactly when both the order insert
  and the order-items insert succeed: then the store is \<open>clearCart\<close> applied to the store
  before, and no error is shown. When the order insert fails, or the order insert succeeds and
  the order-items insert fails, the store is the store before, untouched, and the inline
  message is the error's message, or "Failed to place order" when it has none. With nobody
  signed in the handler changes nothing. This holds for every cart store and every
  \<open>clearCart\<close>, so \<open>clearCart\<close> runs once in the first case and not at all in the others.
\<close>

theorem checkout_clears_cart_iff_both_inserts_succeed:
  fixes cart :: "'c cart_context"
  defines "request uid store formData \<equiv> order_of_form uid (ctx_getTotalPrice cart store) formData"
  defines "submit insert_order insert_order_items user formData w \<equiv>
             checkout_handleSubmit cart insert_order insert_order_items user formData w"
  shows "(\<forall>order. insert_order (request uid store formData) = Inr order \<and>
            insert_order_items (orderItems order (ctx_items cart store)) = None \<longrightarrow>
            fst (submit insert_order insert_order_items (Some uid) formData (store, page)) =
              ctx_clearCart cart store \<and>
            cp_error (snd (submit insert_order insert_order_items (Some uid) formData (store, page))) = []) \<and>
         (\<forall>e. insert_order (request uid store formData) = Inl e \<longrightarrow>
            fst (submit insert_order insert_order_items (Some uid) formData (store, page)) = store \<and>
            cp_error (snd (submit insert_order insert_order_items (Some uid) formData (store, page))) =
              message_or (err_message e) ''Failed to place order'') \<and>
         (\<forall>order e. insert_order (request uid store formData) = Inr order \<and>
            insert_order_items (orderItems order (ctx_items cart store)) = Some e \<longrightarrow>
            fst (submit insert_order insert_order_items (Some uid) formData (store, page)) = store \<and>
            cp_error (snd (submit insert_order insert_order_items (Some uid) formData (store, page))) =
              message_or (err_message e) ''Failed to place order'') \<and>
         submit insert_order insert_order_items None formData (store, page) = (store, page)"
  unfolding request_def submit_def
  by (auto simp: checkout_handleSubmit_def Let_def)


theorem checkout_clears_cart_iff_both_inserts_succeed_witness:
  "fst (checkout_handleSubmit useCart
          (\<lambda>_. Inr \<lparr>ord_id = ''o1'', ord_order_number = ''ORD-20250705-000001''\<rparr>) (\<lambda>_. None)
          (Some ''u1'') sample_form
          (sample_store, \<lparr>cp_loading = False, cp_error = [], cp_navigated = None\<rparr>)) =
     clearCart sample_store \<and>
   fst (checkout_handleSubmit useCart
          (\<lambda>_. Inl \<lparr>err_message = Some ''permission denied'', err_code = Some ''42501''\<rparr>)
          (\<lambda>_. None) (Some ''u1'') sample_form
          (sample_store, \<lparr>cp_loading = False, cp_error = [], cp_navigated = None\<rparr>)) =
     sample_store \<and>
   cp_error (snd (checkout_handleSubmit useCart
          (\<lambda>_. Inl \<lparr>err_message = Some ''permission denied'', err_code = Some ''42501''\<rparr>)
          (\<lambda>_. None) (Some ''u1'') sample_form
          (sample_store, \<lparr>cp_loading = False, cp_error = [], cp_navigated = None\<rparr>))) =
     ''permission denied'' \<and>
   fst (checkout_handleSubmit useCart
          (\<lambda>_. Inr \<lparr>ord_id = ''o1'', ord_order_number = ''ORD-20250705-000001''\<rparr>)
          (\<lambda>_. Some \<lparr>err_message = None, err_code = None\<rparr>) (Some ''u1'') sample_form
          (sample_store, \<lparr>cp_loading = False, cp_error = [], cp_navigated = None\<rparr>)) =
     sample_store \<and>
   cp_error (snd (checkout_handleSubmit useCart
          (\<lambda>_. Inr \<lparr>ord_id = ''o1'', ord_order_number = ''ORD-20250705-000001''\<rparr>)
          (\<lambda>_. Some \<lparr>err_message = None, err_code = None\<rparr>) (Some ''u1'') sample_form
          (sample_store, \<lparr>cp_loading = False, cp_error = [], cp_navigated = None\<rparr>))) =
     ''Failed to place order''"
  using checkout_clears_cart_iff_both_inserts_succeed [where cart = useCart
      and insert_order = "\<lambda>_. Inr \<lparr>ord_id = ''o1'', ord_order_number = ''ORD-20250705-000001''\<rparr>"
      and insert_order_items = "\<lambda>_. None" and uid = "''u1''" and formData = sample_form
      and store = sample_store
      and page = "\<lparr>cp_loading = False, cp_error = [], cp_navigated = None\<rparr>"]
    checkout_clears_cart_iff_both_inserts_succeed [where cart = useCart
      and insert_order = "\<lambda>_. Inl \<lparr>err_message = Some ''permission denied'', err_code = Some ''42501''\<rparr>"
      and insert_order_items = "\<lambda>_. None" and uid = "''u1''" and formData = sample_form
      and store = sample_store
      and page = "\<lparr>cp_loading = False, cp_error = [], cp_navigated = None\<rparr>"]
    checkout_clears_cart_iff_both_inserts_succeed [where cart = useCart
      and insert_order = "\<lambda>_. Inr \<lparr>ord_id = ''o1'', ord_order_number = ''ORD-20250705-000001''\<rparr>"
      and insert_order_items = "\<lambda>_. Some \<lparr>err_message = None, err_code = None\<rparr>"
      and uid = "''u1''" and formData = sample_form and store = sample_store
      and page = "\<lparr>cp_loading = False, cp_error = [], cp_navigated = None\<rparr>"]
  by (simp add: useCart_def message_or_def)

section \<open>Properties of the serialized snapshot\<close>

lemma all_some_map: "(\<And>x. f (g x) = Some x) \<Longrightarrow> all_some (map (f \<circ> g) xs) = Some xs"
  by (induction xs) auto

lemma as_integer_of_int: "as_integer (JNum (of_int n)) = Some n"
  using quotient_of_int [of n] by (simp add: as_integer_def Rat.of_int_def)

lemma or_null_nullable:
  assumes "\<And>v. f (g v) = Some v" and "\<And>v. g v \<noteq> JNull"
  shows "or_null f (nullable g x) = Some x"
proof (cases x)
  case None
  then show ?thesis by (simp add: or_null_def nullable_def)
next
  case (Some a)
  have "or_null f (g a) = map_option Some (f (g a))"
    using assms(2) [of a] by (cases "g a") (simp_all add: or_null_def)
  then show ?thesis by (simp add: Some nullable_def assms(1))
qed

lemma as_string_array: "as_array as_string (JArr (map JStr xs)) = Some xs"
  by (simp add: as_array_def all_some_map as_string_def)

lemma category_roundtrip: "category_of_json (category_to_json c) = Some c"
  by (simp add: category_of_json_def category_to_json_def required_def optional_def
      or_null_nullable as_string_def)

lemma category_to_json_not_null: "category_to_json c \<noteq> JNull"
  by (simp add: category_to_json_def)

lemma product_roundtrip: "product_of_json (product_to_json p) = Some p"
  by (simp add: product_of_json_def product_to_json_def required_def optional_def
      or_null_nullable as_string_def as_number_def as_boolean_def as_integer_of_int
      as_string_array category_roundtrip category_to_json_not_null)

lemma item_roundtrip: "item_of_json (item_to_json i) = Some i"
  by (simp add: item_of_json_def item_to_json_def required_def product_roundtrip
      as_integer_of_int)

lemma deserialize_serialize: "deserialize (serialize items) = Inr items"
  by (simp add: deserialize_def serialize_def as_array_def all_some_map item_roundtrip)

section \<open>Properties of the cart store\<close>

lemma cs_items_persist: "cs_items (persist items) = items"
  by (simp add: persist_def)

lemma addItem_new:
  "p_id p \<notin> set (map item_id (cs_items st)) \<Longrightarrow>
   cs_items (addItem p q st) = cs_items st @ [line_item (p, q)]"
  by (simp add: addItem_def cs_items_persist line_item_def)

lemma fold_add_call_items:
  "distinct (map (\<lambda>c. p_id (fst c)) calls) \<Longrightarrow>
   (\<forall>c \<in> set calls. p_id (fst c) \<notin> set (map item_id (cs_items st))) \<Longrightarrow>
   cs_items (fold add_call calls st) = cs_items st @ map line_item calls"
proof (induction calls arbitrary: st)
  case Nil
  then show ?case by simp
next
  case (Cons c calls)
  have new: "cs_items (add_call c st) = cs_items st @ [line_item c]"
    using Cons.prems(2) by (simp add: add_call_def addItem_new)
  have "\<forall>d \<in> set calls. p_id (fst d) \<notin> set (map item_id (cs_items (add_call c st)))"
  proof
    fix d assume d: "d \<in> set calls"
    have "p_id (fst c) \<notin> (\<lambda>c. p_id (fst c)) ` set calls"
      using Cons.prems(1) by simp
    with d have "p_id (fst d) \<noteq> p_id (fst c)"
      by (metis imageI)
    moreover have "p_id (fst d) \<notin> set (map item_id (cs_items st))"
      using Cons.prems(2) d by simp
    ultimately show "p_id (fst d) \<notin> set (map item_id (cs_items (add_call c st)))"
      by (simp add: new line_item_def item_id_def)
  qed
  moreover have "distinct (map (\<lambda>c. p_id (fst c)) calls)"
    using Cons.prems(1) by simp
  ultimately have "cs_items (fold add_call calls (add_call c st)) =
      cs_items (add_call c st) @ map line_item calls"
    by (rule Cons.IH [rotated])
  then show ?case by (simp add: new)
qed

text \<open>
  Claim C1. For every sequence of \<open>addItem\<close> calls whose product ids are pairwise distinct,
  starting from an empty cart, \<open>getTotalItems\<close> is the sum of the quantities passed and
  \<open>getTotalPrice\<close> is the sum over the calls of price times quantity, with the price each
  product had in the snapshot passed to its call.
\<close>

theorem addItem_distinct_totals:
  assumes "distinct (map (\<lambda>c. p_id (fst c)) calls)" and "cs_items st = []"
  shows "getTotalItems (fold add_call calls st) = sum_list (map snd calls) \<and>
         getTotalPrice (fold add_call calls st) =
           sum_list (map (\<lambda>c. p_price (fst c) * of_int (snd c)) calls)"
proof -
  have "cs_items (fold add_call calls st) = map line_item calls"
    using fold_add_call_items [OF assms(1), of st] assms(2) by simp
  then show ?thesis
    by (simp add: getTotalItems_def getTotalPrice_def line_item_def comp_def)
qed

theorem addItem_distinct_totals_witness:
  "getTotalItems (fold add_call [(sample_product ''A'' 10, 1), (sample_product ''B'' 5, 3)]
      \<lparr>cs_items = [], cs_persisted = None\<rparr>) = 4 \<and>
   getTotalPrice (fold add_call [(sample_product ''A'' 10, 1), (sample_product ''B'' 5, 3)]
      \<lparr>cs_items = [], cs_persisted = None\<rparr>) = 25"
  using addItem_distinct_totals [of "[(sample_product ''A'' 10, 1), (sample_product ''B'' 5, 3)]"
      "\<lparr>cs_items = [], cs_persisted = None\<rparr>"]
  by (simp add: sample_product_def)

text \<open>
  Claim C2. For every cart state and every product \<open>p\<close>: if a line item for \<open>p\<close>'s id exists,
  \<open>addItem p q\<close> keeps the number of line items and their products and adds \<open>q\<close> to the
  quantity of the line item for that id, and to no other; otherwise it appends one line item
  for \<open>p\<close> with quantity \<open>q\<close>. In particular, on a cart without \<open>p\<close>, \<open>addItem p 2\<close>
  followed by \<open>addItem p 3\<close> leaves exactly one line item for \<open>p\<close>, with quantity 5.
\<close>

theorem addItem_increments_or_appends:
  "(p_id p \<in> set (map item_id (cs_items st)) \<longrightarrow>
      length (cs_items (addItem p q st)) = length (cs_items st) \<and>
      map item_product (cs_items (addItem p q st)) = map item_product (cs_items st) \<and>
      (\<forall>k < length (cs_items st).
         item_quantity (cs_items (addItem p q st) ! k) =
           item_quantity (cs_items st ! k) + (if item_id (cs_items st ! k) = p_id p then q else 0))) \<and>
   (p_id p \<notin> set (map item_id (cs_items st)) \<longrightarrow>
      cs_items (addItem p q st) = cs_items st @ [\<lparr>item_product = p, item_quantity = q\<rparr>] \<and>
      cs_items (addItem p 3 (addItem p 2 st)) =
        cs_items st @ [\<lparr>item_product = p, item_quantity = 5\<rparr>] \<and>
      filter (\<lambda>i. item_id i = p_id p) (cs_items (addItem p 3 (addItem p 2 st))) =
        [\<lparr>item_product = p, item_quantity = 5\<rparr>])"
proof (intro conjI impI)
  assume old: "p_id p \<in> set (map item_id (cs_items st))"
  then have eq: "cs_items (addItem p q st) =
      map (\<lambda>i. if item_id i = p_id p then i\<lparr>item_quantity := item_quantity i + q\<rparr> else i)
        (cs_items st)"
    by (simp add: addItem_def cs_items_persist)
  show "length (cs_items (addItem p q st)) = length (cs_items st)"
    by (simp add: eq)
  show "map item_product (cs_items (addItem p q st)) = map item_product (cs_items st)"
    unfolding eq by (induction "cs_items st") auto
  show "\<forall>k < length (cs_items st).
         item_quantity (cs_items (addItem p q st) ! k) =
           item_quantity (cs_items st ! k) + (if item_id (cs_items st ! k) = p_id p then q else 0)"
    by (simp add: eq)
next
  assume new: "p_id p \<notin> set (map item_id (cs_items st))"
  then show 1: "cs_items (addItem p q st) = cs_items st @ [\<lparr>item_product = p, item_quantity = q\<rparr>]"
    by (simp add: addItem_new line_item_def)
  have 2: "cs_items (addItem p 2 st) = cs_items st @ [\<lparr>item_product = p, item_quantity = 2\<rparr>]"
    using new by (simp add: addItem_new line_item_def)
  have "map (\<lambda>i. if item_id i = p_id p then i\<lparr>item_quantity := item_quantity i + 3\<rparr> else i)
          (cs_items st) = cs_items st"
  proof (rule map_idI)
    fix x assume "x \<in> set (cs_items st)"
    then have "item_id x \<in> set (map item_id (cs_items st))" by simp
    with new have "item_id x \<noteq> p_id p" by metis
    then show "(if item_id x = p_id p then x\<lparr>item_quantity := item_quantity x + 3\<rparr> else x) = x"
      by simp
  qed
  then show 3: "cs_items (addItem p 3 (addItem p 2 st)) =
      cs_items st @ [\<lparr>item_product = p, item_quantity = 5\<rparr>]"
    by (simp add: addItem_def [of p 3] cs_items_persist 2) (simp add: item_id_def)
  have "filter (\<lambda>i. item_id i = p_id p) (cs_items st) = []"
    unfolding filter_empty_conv using new by (metis imageI set_map)
  then show "filter (\<lambda>i. item_id i = p_id p) (cs_items (addItem p 3 (addItem p 2 st))) =
      [\<lparr>item_product = p, item_quantity = 5\<rparr>]"
    by (simp add: 3 item_id_def)
qed

theorem addItem_increments_or_appends_witness:
  "length (cs_items (addItem (sample_product ''A'' 10) 2
      \<lparr>cs_items = [\<lparr>item_product = sample_product ''A'' 10, item_quantity = 1\<rparr>],
       cs_persisted = None\<rparr>)) = 1 \<and>
   item_quantity (cs_items (addItem (sample_product ''A'' 10) 2
      \<lparr>cs_items = [\<lparr>item_product = sample_product ''A'' 10, item_quantity = 1\<rparr>],
       cs_persisted = None\<rparr>) ! 0) = 3 \<and>
   cs_items (addItem (sample_product ''A'' 10) 3 (addItem (sample_product ''A'' 10) 2
      \<lparr>cs_items = [], cs_persisted = None\<rparr>)) =
     [\<lparr>item_product = sample_product ''A'' 10, item_quantity = 5\<rparr>]"
  using addItem_increments_or_appends [of "sample_product ''A'' 10"
      "\<lparr>cs_items = [\<lparr>item_product = sample_product ''A'' 10, item_quantity = 1\<rparr>],
        cs_persisted = None\<rparr>" 2]
    addItem_increments_or_appends [of "sample_product ''A'' 10"
      "\<lparr>cs_items = [], cs_persisted = None\<rparr>" 2]
  by (simp add: item_id_def)

text \<open>
  Claim C5. Initialization of the cart store never throws: for every content of local storage
  under the cart's key it yields a store. A missing key and a payload that fails to
  deserialize yield the empty cart; a payload that deserializes yields its line items.
\<close>

theorem initialize_never_throws:
  "(\<exists>st. initialize payload = Inr st) \<and>
   (payload = None \<longrightarrow> (\<exists>st. initialize payload = Inr st \<and> cs_items st = [])) \<and>
   (\<forall>t exn. payload = Some t \<and> deserialize t = Inl exn \<longrightarrow>
      (\<exists>st. initialize payload = Inr st \<and> cs_items st = [])) \<and>
   (\<forall>t items. payload = Some t \<and> deserialize t = Inr items \<longrightarrow>
      (\<exists>st. initialize payload = Inr st \<and> cs_items st = items))"
  by (auto simp: initialize_def split: option.splits sum.splits)

theorem initialize_never_throws_witness:
  "(\<exists>st. initialize None = Inr st \<and> cs_items st = []) \<and>
   (\<exists>st. initialize (Some (Malformed ''[{product:'')) = Inr st \<and> cs_items st = []) \<and>
   (\<exists>st. initialize (Some (Denotes (JObj [(''quantity'', JNum 2)]))) = Inr st \<and> cs_items st = []) \<and>
   (\<exists>st. initialize (Some (Denotes (JArr []))) = Inr st \<and> cs_items st = [])"
  using initialize_never_throws [of None]
    initialize_never_throws [of "Some (Malformed ''[{product:'')"]
    initialize_never_throws [of "Some (Denotes (JObj [(''quantity'', JNum 2)]))"]
    initialize_never_throws [of "Some (Denotes (JArr []))"]
  by (simp add: deserialize_def as_array_def)

text \<open>
  Claim C6. Round trip: initializing the store from the serialization of a line-item sequence
  yields a cart with exactly those line items (products and quantities); so the store after
  \<open>addItem\<close> or \<open>clearCart\<close>, initialized again from the snapshot it has just persisted, is
  the same store.
\<close>

theorem snapshot_roundtrip:
  "initialize (Some (serialize items)) = Inr \<lparr>cs_items = items, cs_persisted = Some (serialize items)\<rparr> \<and>
   initialize (cs_persisted (addItem p q st)) = Inr (addItem p q st) \<and>
   initialize (cs_persisted (clearCart st)) = Inr (clearCart st)"
  by (simp add: initialize_def deserialize_serialize addItem_def clearCart_def persist_def)

section \<open>Properties of the products table\<close>








section \<open>Properties of the address form\<close>

text \<open>
  When an existing address is edited with the default flag set, the save is two writes: the
  update of the row, then the update that clears the flag on the owner's other rows; after
  both, the edited row is the owner's only default. Between the two writes two addresses of
  the owner can be default.
\<close>

lemma address_edit_default_two_steps:
  fixes answers :: address_call_answers and formData :: address_data and uid aid :: string
    and rows :: "address_row list" and view :: address_form
  assumes "first_error answers = None" and "second_error answers = None"
    and "ad_is_default formData"
  defines "addressData \<equiv> formData\<lparr>ad_user_id := uid, ad_updated_at := now answers\<rparr>"
  defines "saved \<equiv> fst (address_handleSubmit answers (Some uid) (Some aid) formData (rows, view))"
  shows "address_first_write answers (Some aid) addressData rows =
           addresses_update_eq_id addressData aid rows"
    and "saved = addresses_unset_default uid aid
           (address_first_write answers (Some aid) addressData rows)"
    and "\<forall>r \<in> set saved. ad_user_id (ar_columns r) = uid \<longrightarrow>
           (ad_is_default (ar_columns r) \<longleftrightarrow> ar_id r = aid)"
proof -
  show 1: "address_first_write answers (Some aid) addressData rows =
      addresses_update_eq_id addressData aid rows"
    by (simp add: address_first_write_def)
  show 2: "saved = addresses_unset_default uid aid
      (address_first_write answers (Some aid) addressData rows)"
    using assms(1-3) by (simp add: saved_def address_handleSubmit_def addressData_def Let_def)
  define f where "f = (\<lambda>r :: address_row. if ar_id r = aid then r\<lparr>ar_columns := addressData\<rparr> else r)"
  define g where "g = (\<lambda>r :: address_row. if ad_user_id (ar_columns r) = uid \<and> ar_id r \<noteq> aid
      then r\<lparr>ar_columns := (ar_columns r)\<lparr>ad_is_default := False\<rparr>\<rparr> else r)"
  have saved_map: "saved = map g (map f rows)"
    unfolding 2 1 addresses_unset_default_def addresses_update_eq_id_def f_def g_def ..
  show "\<forall>r \<in> set saved. ad_user_id (ar_columns r) = uid \<longrightarrow>
      (ad_is_default (ar_columns r) \<longleftrightarrow> ar_id r = aid)"
  proof
    fix r assume "r \<in> set saved"
    then obtain x where r: "r = g (f x)"
      unfolding saved_map by auto
    show "ad_user_id (ar_columns r) = uid \<longrightarrow> (ad_is_default (ar_columns r) \<longleftrightarrow> ar_id r = aid)"
    proof (cases "ar_id x = aid")
      case True
      then have "f x = x\<lparr>ar_columns := addressData\<rparr>" by (simp add: f_def)
      then have "r = x\<lparr>ar_columns := addressData\<rparr>" using True by (simp add: r g_def)
      then show ?thesis using assms(3) True by (simp add: addressData_def)
    next
      case False
      then have fx: "f x = x" by (simp add: f_def)
      show ?thesis
      proof (cases "ad_user_id (ar_columns x) = uid")
        case True
        then have "r = x\<lparr>ar_columns := (ar_columns x)\<lparr>ad_is_default := False\<rparr>\<rparr>"
          using False by (simp add: r fx g_def)
        then show ?thesis using False by simp
      next
        case nu: False
        then have "r = x" by (simp add: r fx g_def)
        then show ?thesis using nu by simp
      qed
    qed
  qed
qed

lemma address_edit_default_between_steps:
  "default_flags (address_first_write
      \<lparr>first_error = None, second_error = None, new_id = ''a9'', now = ''2025-07-06''\<rparr>
      (Some ''a2'') (sample_address ''u1'' True)
      (sample_addresses @
        [\<lparr>ar_id = ''a2'', ar_columns = sample_address ''u1'' False, ar_created_at = ''2025-07-05''\<rparr>]))
     = [(''a1'', True), (''a2'', True)] \<and>
   default_flags (fst (address_handleSubmit
      \<lparr>first_error = None, second_error = None, new_id = ''a9'', now = ''2025-07-06''\<rparr>
      (Some ''u1'') (Some ''a2'') (sample_address [] True)
      (sample_addresses @
        [\<lparr>ar_id = ''a2'', ar_columns = sample_address ''u1'' False, ar_created_at = ''2025-07-05''\<rparr>],
       \<lparr>af_loading = False, af_error = [], af_saved = False\<rparr>)))
     = [(''a1'', False), (''a2'', True)]"
  by (simp add: default_flags_def address_handleSubmit_def address_first_write_def
      addresses_update_eq_id_def addresses_unset_default_def sample_addresses_def
      sample_address_def)

text \<open>
  Claim C7, where the code departs from it. A new address is saved with the default flag set
  while the owner has a default address \<open>a1\<close>; the platform stores the new row as \<open>a2\<close>. The
  second update excludes the id \<open>''\<close>, which no row has, so it clears the flag on the new row
  too and the owner is left without a default address. When the platform rejects that update
  (the answer is not looked at), both addresses stay default.
\<close>

theorem address_new_default_loses_flag:
  "default_flags (fst (address_handleSubmit
      \<lparr>first_error = None, second_error = None, new_id = ''a2'', now = ''2025-07-06''\<rparr>
      (Some ''u1'') None (sample_address [] True)
      (sample_addresses, \<lparr>af_loading = False, af_error = [], af_saved = False\<rparr>)))
     = [(''a1'', False), (''a2'', False)] \<and>
   default_flags (fst (address_handleSubmit
      \<lparr>first_error = None,
       second_error = Some \<lparr>err_message = Some ''invalid input syntax for type uuid'',
                            err_code = Some ''22P02''\<rparr>,
       new_id = ''a2'', now = ''2025-07-06''\<rparr>
      (Some ''u1'') None (sample_address [] True)
      (sample_addresses, \<lparr>af_loading = False, af_error = [], af_saved = False\<rparr>)))
     = [(''a1'', True), (''a2'', True)]"
  by (simp add: default_flags_def address_handleSubmit_def address_first_write_def
      addresses_insert_def addresses_unset_default_def sample_addresses_def
      sample_address_def)

end
